theory Spec2Isabelle
  imports Complex_Main
begin

section \<open>Python values\<close>

text \<open>
  A Python \<open>str\<close> is a sequence of Unicode code points, so a string is a list of
  naturals. \<open>str\<close> turns a literal into such a list.
\<close>

type_synonym pystr = "nat list"

definition str :: "string \<Rightarrow> pystr" where
  "str s = map of_char s"

text \<open>
  \<open>isspace\<close> is the set of code points that \<open>str.strip()\<close> without argument removes:
  the characters for which \<open>str.isspace()\<close> holds.
\<close>

definition isspace :: "nat \<Rightarrow> bool" where
  "isspace c \<longleftrightarrow>
     (9 \<le> c \<and> c \<le> 13) \<or> (28 \<le> c \<and> c \<le> 32) \<or> c = 133 \<or> c = 160 \<or> c = 5760 \<or>
     (8192 \<le> c \<and> c \<le> 8202) \<or> c = 8232 \<or> c = 8233 \<or> c = 8239 \<or> c = 8287 \<or>
     c = 12288"

definition lstrip :: "pystr \<Rightarrow> pystr" where
  "lstrip s = dropWhile isspace s"

definition rstrip :: "pystr \<Rightarrow> pystr" where
  "rstrip s = rev (dropWhile isspace (rev s))"

definition strip :: "pystr \<Rightarrow> pystr" where
  "strip s = rstrip (lstrip s)"

text \<open>
  \<open>s.split("\n")\<close>: the pieces between line feeds (code point 10). The result is never
  empty: the empty string splits into one empty piece.
\<close>

fun split_nl :: "pystr \<Rightarrow> pystr list" where
  "split_nl [] = [[]]"
| "split_nl (c # cs) =
     (if c = 10 then [] # split_nl cs
      else (case split_nl cs of
              [] \<Rightarrow> [[c]]
            | l # ls \<Rightarrow> (c # l) # ls))"

section \<open>The submission form\<close>

text \<open>
  \<open>datetime.date\<close> values, ordered by year, then month, then day.
\<close>

record date =
  year :: int
  month :: int
  day :: int

definition date_gt :: "date \<Rightarrow> date \<Rightarrow> bool" where
  "date_gt a b \<longleftrightarrow>
     year a > year b \<or>
     (year a = year b \<and> (month a > month b \<or> (month a = month b \<and> day a > day b)))"

datatype doc_type = slides | report | transcript | audio

text \<open>What the widgets of the form return when the form is submitted.\<close>

record form =
  isin_input :: pystr
  start_date :: date
  end_date :: date
  doc_types :: "doc_type list"
  s3_bucket :: pystr

text \<open>The arguments handed to \<open>process_files_task\<close>.\<close>

record job =
  job_isin_list :: "pystr list"
  job_start :: date
  job_end :: date
  job_doc_types :: "doc_type list"
  job_bucket :: pystr

text \<open>The three messages of \<open>st.error\<close> in the validation of the form.\<close>

datatype form_error =
    FillRequiredFields    \<comment> \<open>"Please fill in all required fields"\<close>
  | StartBeforeEnd        \<comment> \<open>"Start date must be before end date"\<close>
  | NoValidIsin           \<comment> \<open>"Please enter at least one valid ISIN"\<close>

text \<open>
  \<open>[isin.strip() for isin in isin_input.split("\n") if isin.strip()]\<close>
\<close>

definition isin_list_of :: "pystr \<Rightarrow> pystr list" where
  "isin_list_of text = map strip (filter (\<lambda>isin. strip isin \<noteq> []) (split_nl text))"

text \<open>
  The checks of \<open>main\<close> after \<open>if submitted:\<close>, in the order of the source, each
  returning at its first failure.
\<close>

definition build_job :: "form \<Rightarrow> form_error + job" where
  "build_job f =
     (if isin_input f = [] \<or> s3_bucket f = [] \<or> doc_types f = [] then Inl FillRequiredFields
      else if date_gt (start_date f) (end_date f) then Inl StartBeforeEnd
      else if isin_list_of (isin_input f) = [] then Inl NoValidIsin
      else Inr \<lparr> job_isin_list = isin_list_of (isin_input f),
                 job_start = start_date f,
                 job_end = end_date f,
                 job_doc_types = doc_types f,
                 job_bucket = s3_bucket f \<rparr>)"

section \<open>Snapshots read from the result store\<close>

text \<open>
  The values a snapshot is made of: \<open>None\<close>, integers, strings and dictionaries with
  string keys (an association list, looked up from the front). Floating-point numbers in
  a snapshot are outside the model.
\<close>

datatype pyval = VNone | VInt int | VStr pystr | VDict "(pystr \<times> pyval) list"

text \<open>
  The exceptions: those of Python's own operators, the one of the progress bar, those of
  the queue library (\<open>TaskException\<close> is a subclass of its \<open>HueyException\<close>; an
  \<open>except TaskException\<close> does not catch the superclass), the builtin
  \<open>TimeoutError\<close>, and any other subclass of \<open>Exception\<close>.
\<close>

datatype py_exception =
    TypeError
  | AttributeError
  | ZeroDivisionError
  | OverflowError
  | StreamlitAPIException
  | TaskException pystr
  | HueyException pystr
  | TimeoutError
  | OtherException pystr

text \<open>Truth value of an object, as \<open>if result:\<close> tests it.\<close>

fun truthy :: "pyval \<Rightarrow> bool" where
  "truthy VNone = False"
| "truthy (VInt i) = (i \<noteq> 0)"
| "truthy (VStr s) = (s \<noteq> [])"
| "truthy (VDict d) = (d \<noteq> [])"

text \<open>\<open>d.get(key, default)\<close> on a dictionary.\<close>

definition dict_get :: "(pystr \<times> pyval) list \<Rightarrow> pystr \<Rightarrow> pyval \<Rightarrow> pyval" where
  "dict_get d k dflt = (case map_of d k of None \<Rightarrow> dflt | Some v \<Rightarrow> v)"

text \<open>\<open>total > 0\<close>: only an integer compares with \<open>0\<close>.\<close>

fun py_gt0 :: "pyval \<Rightarrow> py_exception + bool" where
  "py_gt0 (VInt i) = Inr (i > 0)"
| "py_gt0 _ = Inl TypeError"

subsection \<open>Floats\<close>

text \<open>
  A Python float is an IEEE 754 double: zero, or \<open>\<plusminus> m * 2 ^ q\<close> with \<open>m < 2 ^ 53\<close>
  and \<open>- 1074 \<le> q \<le> 971\<close>. A float is modelled by its value, a rational; the sign of a
  zero is not kept.

  \<open>bit_length\<close> is \<open>int.bit_length()\<close>. For a positive \<open>x\<close>, \<open>ilog2 x\<close> is the
  integer \<open>e\<close> with \<open>2 ^ e \<le> x < 2 ^ (e + 1)\<close>, and \<open>ulp_exponent x\<close> the exponent
  \<open>q\<close> of the unit in the last place of the doubles around \<open>x\<close>: 53 bits of
  precision, and the fixed exponent \<open>- 1074\<close> of the subnormal doubles at the bottom.
\<close>

function bit_length :: "int \<Rightarrow> int" where
  "bit_length n = (if n = 0 then 0 else 1 + bit_length (\<bar>n\<bar> div 2))"
  by pat_completeness auto
termination
  by (relation "measure (\<lambda>n. nat \<bar>n\<bar>)") auto

declare bit_length.simps [simp del]

definition ilog2 :: "rat \<Rightarrow> int" where
  "ilog2 x =
     (case quotient_of x of
        (a, b) \<Rightarrow>
          (let e = bit_length a - bit_length b
           in if of_int b * 2 powi e \<le> (of_int a :: rat) then e else e - 1))"

definition ulp_exponent :: "rat \<Rightarrow> int" where
  "ulp_exponent x = max (ilog2 \<bar>x\<bar> - 52) (- 1074)"

text \<open>Rounding to the nearest integer, a tie going to the even one.\<close>

definition round_half_even :: "rat \<Rightarrow> int" where
  "round_half_even x =
     (let n = \<lfloor>x\<rfloor>; r = x - of_int n
      in if r < 1 / 2 then n
         else if 1 / 2 < r then n + 1
         else if even n then n else n + 1)"

text \<open>
  The double nearest to \<open>x\<close>, ties to even, with no bound on the exponent from above: a
  result of \<open>2 ^ 1024\<close> or more in magnitude is beyond the largest double.
\<close>

definition nearest_double :: "rat \<Rightarrow> rat" where
  "nearest_double x =
     (if x = 0 then 0
      else sgn x * of_int (round_half_even (\<bar>x\<bar> / 2 powi ulp_exponent x))
             * 2 powi ulp_exponent x)"

text \<open>
  \<open>processed / total\<close>: true division. On two integers it gives the float nearest to the
  exact quotient, and raises \<open>OverflowError\<close> ("integer division result too large for a
  float") when that is beyond the largest double.
\<close>

fun py_truediv :: "pyval \<Rightarrow> pyval \<Rightarrow> py_exception + rat" where
  "py_truediv (VInt a) (VInt b) =
     (if b = 0 then Inl ZeroDivisionError
      else if 2 ^ 1024 \<le> \<bar>nearest_double (of_int a / of_int b)\<bar> then Inl OverflowError
      else Inr (nearest_double (of_int a / of_int b)))"
| "py_truediv _ _ = Inl TypeError"

text \<open>
  A number handed to the progress bar: the int \<open>0\<close> or a float, given by its value.
\<close>

datatype number = IntNum int | FloatNum rat


text \<open>\<open>progress = processed / total if total > 0 else 0\<close>\<close>

definition progress_value :: "pyval \<Rightarrow> pyval \<Rightarrow> py_exception + number" where
  "progress_value processed total' =
     (case py_gt0 total' of
        Inl e \<Rightarrow> Inl e
      | Inr positive \<Rightarrow>
          if positive then
            (case py_truediv processed total' of
               Inl e \<Rightarrow> Inl e
             | Inr q \<Rightarrow> Inr (FloatNum q))
          else Inr (IntNum 0))"

section \<open>Session state and what a run shows\<close>

datatype message =
    ProcessingFiles pyval pyval
      \<comment> \<open>"Processing files: {processed}/{total}"\<close>
  | UploadCounts pyval pyval
      \<comment> \<open>"Successful uploads: {success}\nFailed uploads: {failed}"\<close>
  | ProcessingComplete
      \<comment> \<open>"Processing complete!"\<close>
  | FinalResults pyval pyval pyval
      \<comment> \<open>"Final results:\n Total files processed: {total}\n Successful uploads: {success}\n
          Failed uploads: {failed}"\<close>
  | ProcessingFailed pyval
      \<comment> \<open>"Processing failed: {error}"\<close>
  | ErrorCheckingTaskStatus py_exception
      \<comment> \<open>"Error checking task status: {str(e)}"\<close>
  | MissingEnvironment
      \<comment> \<open>"Missing required environment variables. ..."\<close>
  | FormError form_error
  | AnErrorOccurred py_exception
      \<comment> \<open>"An error occurred: {str(e)}"\<close>
  | QueueSuccessful
      \<comment> \<open>"Queue connection successful!"\<close>
  | UnexpectedResponse pyval
      \<comment> \<open>"Unexpected response from queue: {response}"\<close>
  | TaskExecutionFailed py_exception
      \<comment> \<open>"Task execution failed: {str(e)}"\<close>
  | QueueTimedOut
      \<comment> \<open>"Queue connection timed out. Worker might be unavailable."\<close>
  | QueueConnectionFailed py_exception
      \<comment> \<open>"Queue connection failed: {str(e)}"\<close>

text \<open>
  A placeholder made by \<open>st.empty()\<close> holds the element last written to it.
\<close>

datatype element = Empty | ProgressBar number | Text message

text \<open>
  \<open>st.session_state\<close>: each key is absent (\<open>None\<close>) or holds a value.
\<close>

record session_state =
  processing_complete :: "bool option"
  processed_files :: "pystr list option"
  task_id :: "pystr option"
  progress_container :: "element option"
  status_container :: "element option"
  results_container :: "element option"

text \<open>The initialisation at the top of the script.\<close>

definition init_session_state :: "session_state \<Rightarrow> session_state" where
  "init_session_state st =
     st\<lparr> processing_complete :=
           (case processing_complete st of None \<Rightarrow> Some False | Some b \<Rightarrow> Some b),
         processed_files :=
           (case processed_files st of None \<Rightarrow> Some [] | Some fs \<Rightarrow> Some fs) \<rparr>"

text \<open>
  What one run of the script does outside the session state: the elements it puts on the
  page, the job it hands to the queue, the rerun it asks for.
\<close>

datatype event =
    Title
  | Write pystr
  | Error message
  | Success message
  | Form pystr          \<comment> \<open>the form, with the initial value of the bucket field\<close>
  | Dispatch job
  | Rerun

section \<open>Polling: \<open>check_task_status\<close>\<close>

text \<open>
  What the collaborators do at one poll: \<open>huey_result\<close> is what
  \<open>huey.result(task_id)\<close> returns or raises, \<open>progress_accepts\<close> is the validation
  of its argument by the progress bar, which raises on a value it refuses.
\<close>

record tick =
  huey_result :: "py_exception + pyval"
  progress_accepts :: "number \<Rightarrow> bool"

text \<open>"Create persistent containers if they don't exist".\<close>

definition ensure_containers :: "session_state \<Rightarrow> session_state" where
  "ensure_containers st =
     st\<lparr> progress_container :=
           (case progress_container st of None \<Rightarrow> Some Empty | Some c \<Rightarrow> Some c),
         status_container :=
           (case status_container st of None \<Rightarrow> Some Empty | Some c \<Rightarrow> Some c),
         results_container :=
           (case results_container st of None \<Rightarrow> Some Empty | Some c \<Rightarrow> Some c) \<rparr>"

text \<open>The branch \<open>status == 'In Progress'\<close>.\<close>

definition in_progress_branch ::
  "tick \<Rightarrow> (pystr \<times> pyval) list \<Rightarrow> session_state \<Rightarrow> py_exception + (session_state \<times> event list)"
where
  "in_progress_branch k d st =
     (let total' = dict_get d (str ''total'') (VInt 0);
          processed = dict_get d (str ''processed'') (VInt 0)
      in case progress_value processed total' of
           Inl e \<Rightarrow> Inl e
         | Inr progress \<Rightarrow>
             if \<not> progress_accepts k progress then Inl StreamlitAPIException
             else
               let success = dict_get d (str ''success'') (VInt 0);
                   failed = dict_get d (str ''failed'') (VInt 0)
               in Inr (st\<lparr> progress_container := Some (ProgressBar progress),
                            status_container := Some (Text (ProcessingFiles processed total')),
                            results_container := Some (Text (UploadCounts success failed)) \<rparr>,
                       []))"

text \<open>The branch \<open>status == 'Complete'\<close>.\<close>

definition complete_branch ::
  "tick \<Rightarrow> (pystr \<times> pyval) list \<Rightarrow> session_state \<Rightarrow> py_exception + (session_state \<times> event list)"
where
  "complete_branch k d st =
     (if \<not> progress_accepts k (FloatNum 1) then Inl StreamlitAPIException
      else Inr (st\<lparr> progress_container := Some (ProgressBar (FloatNum 1)),
                     status_container := Some (Text ProcessingComplete),
                     results_container :=
                       Some (Text (FinalResults (dict_get d (str ''total'') (VInt 0))
                                                (dict_get d (str ''success'') (VInt 0))
                                                (dict_get d (str ''failed'') (VInt 0)))),
                     task_id := None \<rparr>,
                []))"

text \<open>The branch \<open>status == 'Failed'\<close>.\<close>

definition failed_branch ::
  "(pystr \<times> pyval) list \<Rightarrow> session_state \<Rightarrow> py_exception + (session_state \<times> event list)"
where
  "failed_branch d st =
     Inr (st\<lparr> task_id := None \<rparr>,
          [Error (ProcessingFailed (dict_get d (str ''error'') (VStr (str ''Unknown error''))))])"

text \<open>
  The body of \<open>if result:\<close>. \<open>result.get\<close> exists on a dictionary only; on a truthy
  value of another type the attribute lookup raises.
\<close>

definition render_result ::
  "tick \<Rightarrow> pyval \<Rightarrow> session_state \<Rightarrow> py_exception + (session_state \<times> event list)"
where
  "render_result k result st =
     (case result of
        VDict d \<Rightarrow>
          (let status = dict_get d (str ''status'') VNone
           in if status = VStr (str ''In Progress'') then in_progress_branch k d st
              else if status = VStr (str ''Complete'') then complete_branch k d st
              else if status = VStr (str ''Failed'') then failed_branch d st
              else Inr (st, []))
      | _ \<Rightarrow> Inl AttributeError)"

text \<open>The \<open>try\<close> block after the containers exist.\<close>

definition try_block ::
  "tick \<Rightarrow> session_state \<Rightarrow> py_exception + (session_state \<times> event list)"
where
  "try_block k st =
     (case huey_result k of
        Inl e \<Rightarrow> Inl e
      | Inr result \<Rightarrow> if truthy result then render_result k result st else Inr (st, []))"

text \<open>
  \<open>check_task_status\<close>. Every statement of the \<open>try\<close> block that can raise comes
  before the first write to a container of its branch, so the handler runs in the state
  left by \<open>ensure_containers\<close>, where the key \<open>task_id\<close> is still present.
\<close>

definition check_task_status :: "tick \<Rightarrow> session_state \<Rightarrow> session_state \<times> event list" where
  "check_task_status k st =
     (case task_id st of
        None \<Rightarrow> (st, [])
      | Some tid \<Rightarrow>
          (let st1 = ensure_containers st
           in case try_block k st1 of
                Inr r \<Rightarrow> r
              | Inl e \<Rightarrow> (st1\<lparr> task_id := None \<rparr>, [Error (ErrorCheckingTaskStatus e)])))"

text \<open>
  A sequence of polls, one run of the script each: the session state and the events that
  each poll leaves, in order. The session state is carried from one run to the next.
\<close>

fun poll_trace :: "tick list \<Rightarrow> session_state \<Rightarrow> (session_state \<times> event list) list" where
  "poll_trace [] st = []"
| "poll_trace (k # ks) st =
     check_task_status k st # poll_trace ks (fst (check_task_status k st))"


section \<open>The queue probe: \<open>test_queue_connection\<close>\<close>

text \<open>
  \<open>ping_raises\<close>: the exception of the import or of \<open>ping()\<close>, if any;
  \<open>task_get\<close>: what \<open>task.get(blocking=True, timeout=15)\<close> returns or raises.
\<close>

record probe =
  ping_raises :: "py_exception option"
  task_get :: "py_exception + pyval"

text \<open>
  Modelled from the queue library (huey), which is outside this repository: what
  \<open>task.get(blocking=True, timeout=15)\<close> does with each thing that can happen to the
  ping task. A result is returned; a task that raised gives \<open>TaskException\<close>; and when
  no result arrives within the timeout the wait raises the library's own
  \<open>HueyException("timed out waiting for result")\<close>, not the builtin \<open>TimeoutError\<close>.
\<close>

datatype wait = Responds pyval | TaskRaised pystr | NoResponse

fun huey_get :: "wait \<Rightarrow> py_exception + pyval" where
  "huey_get (Responds v) = Inr v"
| "huey_get (TaskRaised m) = Inl (TaskException m)"
| "huey_get NoResponse = Inl (HueyException (str ''timed out waiting for result''))"

definition test_queue_connection :: "probe \<Rightarrow> bool \<times> message" where
  "test_queue_connection p =
     (case ping_raises p of
        Some e \<Rightarrow> (False, QueueConnectionFailed e)
      | None \<Rightarrow>
          (case task_get p of
             Inr response \<Rightarrow>
               if response = VStr (str ''pong'') then (True, QueueSuccessful)
               else (False, UnexpectedResponse response)
           | Inl (TaskException m) \<Rightarrow> (False, TaskExecutionFailed (TaskException m))
           | Inl TimeoutError \<Rightarrow> (False, QueueTimedOut)
           | Inl e \<Rightarrow> (False, QueueConnectionFailed e)))"

section \<open>The script: \<open>main\<close>\<close>

text \<open>The environment variables: \<open>os.getenv\<close> gives \<open>None\<close> for an unset one.\<close>

record config =
  QUARTR_API_KEY :: "pystr option"
  AWS_ACCESS_KEY_ID :: "pystr option"
  AWS_SECRET_ACCESS_KEY :: "pystr option"
  AWS_DEFAULT_REGION :: "pystr option"
  DEFAULT_S3_BUCKET :: "pystr option"
  REDIS_URL :: "pystr option"

fun env_truthy :: "pystr option \<Rightarrow> bool" where
  "env_truthy None = False"
| "env_truthy (Some s) = (s \<noteq> [])"

text \<open>The list given to \<open>all\<close> under "Validate environment variables".\<close>

definition required_env :: "config \<Rightarrow> pystr option list" where
  "required_env cfg =
     [QUARTR_API_KEY cfg, AWS_ACCESS_KEY_ID cfg, AWS_SECRET_ACCESS_KEY cfg,
      AWS_DEFAULT_REGION cfg, REDIS_URL cfg]"

text \<open>\<open>DEFAULT_S3_BUCKET or ""\<close>\<close>

definition default_bucket :: "config \<Rightarrow> pystr" where
  "default_bucket cfg = (case DEFAULT_S3_BUCKET cfg of None \<Rightarrow> [] | Some s \<Rightarrow> s)"

text \<open>
  What the operator and the collaborators do during one run of the script.
\<close>

record run =
  health_query :: bool                      \<comment> \<open>\<open>st.query_params.get("health") == "check"\<close>\<close>
  poll :: tick
  submitted :: "form option"                \<comment> \<open>the widget values, when the form is submitted\<close>
  enqueue :: "py_exception + pystr"         \<comment> \<open>\<open>process_files_task(...)\<close>: \<open>task.id\<close> or a raise\<close>
  test_button :: bool                       \<comment> \<open>\<open>st.button("Test Queue Connection")\<close>\<close>
  probe_run :: probe

text \<open>
  The block \<open>if "task_id" not in st.session_state:\<close>. The flag returned says whether
  \<open>main\<close> goes on after it: a \<open>return\<close> and the rerun both end the run.
\<close>

definition form_section ::
  "config \<Rightarrow> run \<Rightarrow> session_state \<Rightarrow> session_state \<times> event list \<times> bool"
where
  "form_section cfg r st =
     (if task_id st \<noteq> None then (st, [], True)
      else
        (case submitted r of
           None \<Rightarrow> (st, [Form (default_bucket cfg)], True)
         | Some f \<Rightarrow>
             (case build_job f of
                Inl e \<Rightarrow> (st, [Form (default_bucket cfg), Error (FormError e)], False)
              | Inr j \<Rightarrow>
                  (case enqueue r of
                     Inl e \<Rightarrow>
                       (st, [Form (default_bucket cfg), Dispatch j, Error (AnErrorOccurred e)],
                        False)
                   | Inr tid \<Rightarrow>
                       (st\<lparr> task_id := Some tid \<rparr>,
                        [Form (default_bucket cfg), Dispatch j, Rerun], False)))))"

text \<open>The block \<open>if st.button("Test Queue Connection"):\<close>.\<close>

definition button_section :: "run \<Rightarrow> event list" where
  "button_section r =
     (if test_button r then
        (case test_queue_connection (probe_run r) of
           (success, msg) \<Rightarrow> if success then [Success msg] else [Error msg])
      else [])"

definition main :: "config \<Rightarrow> run \<Rightarrow> session_state \<Rightarrow> session_state \<times> event list" where
  "main cfg r st =
     (if health_query r then (st, [Write (str ''OK'')])
      else if \<not> list_all env_truthy (required_env cfg)
        then (st, [Title, Error MissingEnvironment])
      else
        (case check_task_status (poll r) st of
           (st1, out1) \<Rightarrow>
             (case form_section cfg r st1 of
                (st2, out2, continue) \<Rightarrow>
                  (st2, Title # out1 @ out2 @ (if continue then button_section r else [])))))"

section \<open>Inputs used to state the properties\<close>

text \<open>
  The session at the start of a script run with no job, and after a job with handle
  \<open>h\<close> was dispatched.
\<close>

definition fresh_session :: session_state where
  "fresh_session =
     \<lparr> processing_complete = Some False, processed_files = Some [], task_id = None,
       progress_container = None, status_container = None, results_container = None \<rparr>"

definition submitted_session :: "pystr \<Rightarrow> session_state" where
  "submitted_session h = fresh_session\<lparr> task_id := Some h \<rparr>"

text \<open>
  Snapshots with the keys that \<open>check_task_status\<close> reads, for the states of the
  spec's StatusSnapshot.
\<close>

definition snapshot_in_progress :: "int \<Rightarrow> int \<Rightarrow> int \<Rightarrow> int \<Rightarrow> pyval" where
  "snapshot_in_progress processed total' success failed =
     VDict [(str ''status'', VStr (str ''In Progress'')),
            (str ''processed'', VInt processed),
            (str ''total'', VInt total'),
            (str ''success'', VInt success),
            (str ''failed'', VInt failed)]"

definition snapshot_complete :: "int \<Rightarrow> int \<Rightarrow> int \<Rightarrow> pyval" where
  "snapshot_complete total' success failed =
     VDict [(str ''status'', VStr (str ''Complete'')),
            (str ''total'', VInt total'),
            (str ''success'', VInt success),
            (str ''failed'', VInt failed)]"

definition snapshot_failed :: "pystr \<Rightarrow> pyval" where
  "snapshot_failed msg =
     VDict [(str ''status'', VStr (str ''Failed'')), (str ''error'', VStr msg)]"

definition snapshot_pending :: pyval where
  "snapshot_pending = VDict [(str ''status'', VStr (str ''Pending''))]"

text \<open>
  The range that the documentation of the progress bar gives for its argument: an int
  from 0 to 100 or a float from 0.0 to 1.0.
\<close>

fun documented_range :: "number \<Rightarrow> bool" where
  "documented_range (IntNum i) = (0 \<le> i \<and> i \<le> 100)"
| "documented_range (FloatNum q) = (0 \<le> q \<and> q \<le> 1)"

definition reads :: "pyval \<Rightarrow> tick" where
  "reads v = \<lparr> huey_result = Inr v, progress_accepts = documented_range \<rparr>"

text \<open>
  The form of the specification's scenario: three lines of identifier text, the second
  blank, the third padded with spaces.
\<close>

definition scenario_form :: form where
  "scenario_form =
     \<lparr> isin_input = str ''US0000000001'' @ [10, 10] @ str ''  US0000000002  '',
       start_date = \<lparr> year = 2024, month = 1, day = 1 \<rparr>,
       end_date = \<lparr> year = 2024, month = 12, day = 31 \<rparr>,
       doc_types = [slides],
       s3_bucket = str ''bucket-x'' \<rparr>"

text \<open>
  A configuration with every variable set, and a run in which the operator submits a
  form and the queue accepts the job under the handle \<open>h\<close>.
\<close>

definition working_config :: config where
  "working_config =
     \<lparr> QUARTR_API_KEY = Some (str ''key''),
       AWS_ACCESS_KEY_ID = Some (str ''id''),
       AWS_SECRET_ACCESS_KEY = Some (str ''secret''),
       AWS_DEFAULT_REGION = Some (str ''eu-west-1''),
       DEFAULT_S3_BUCKET = Some (str ''bucket-x''),
       REDIS_URL = Some (str ''redis://localhost:6379'') \<rparr>"

definition submit_run :: "form \<Rightarrow> pystr \<Rightarrow> run" where
  "submit_run f h =
     \<lparr> health_query = False,
       poll = reads VNone,
       submitted = Some f,
       enqueue = Inr h,
       test_button = False,
       probe_run = \<lparr> ping_raises = None, task_get = Inr (VStr (str ''pong'')) \<rparr> \<rparr>"

section \<open>The rules as the specification words them\<close>

text \<open>
  The four rules of the Job Descriptor Builder in the order of the specification, first
  failure winning, each with an error of its own.
\<close>

datatype rule = MissingDestination | MissingDocumentKinds | InvalidDateRange | NoIdentifiers

definition date_le :: "date \<Rightarrow> date \<Rightarrow> bool" where
  "date_le a b \<longleftrightarrow>
     year a < year b \<or>
     (year a = year b \<and> (month a < month b \<or> (month a = month b \<and> day a \<le> day b)))"

definition spec_first_violation :: "form \<Rightarrow> rule option" where
  "spec_first_violation f =
     (if s3_bucket f = [] then Some MissingDestination
      else if doc_types f = [] then Some MissingDocumentKinds
      else if \<not> date_le (start_date f) (end_date f) then Some InvalidDateRange
      else if filter (\<lambda>l. l \<noteq> []) (map strip (split_nl (isin_input f))) = []
        then Some NoIdentifiers
      else None)"

text \<open>
  The four results of the specification's HealthProbeResult, and the result of
  \<open>test_queue_connection\<close> read as one of them where it is one.
\<close>

datatype health_probe_result =
  Ok | UnexpectedResponseOf pyval | ExecutionFailed py_exception | TimedOut

fun spec_probe_result :: "bool \<times> message \<Rightarrow> health_probe_result option" where
  "spec_probe_result (True, QueueSuccessful) = Some Ok"
| "spec_probe_result (False, UnexpectedResponse v) = Some (UnexpectedResponseOf v)"
| "spec_probe_result (False, TaskExecutionFailed e) = Some (ExecutionFailed e)"
| "spec_probe_result (False, QueueTimedOut) = Some TimedOut"
| "spec_probe_result _ = None"

section \<open>Properties of the job builder\<close>

lemmas strip_defs = strip_def lstrip_def rstrip_def

lemma strip_Nil: "strip [] = []"
  by (simp add: strip_defs)

lemma date_le_iff: "date_le a b \<longleftrightarrow> \<not> date_gt a b"
  by (auto simp: date_le_def date_gt_def)

lemma isin_list_of_eq: "isin_list_of t = filter (\<lambda>l. l \<noteq> []) (map strip (split_nl t))"
  by (simp add: isin_list_of_def filter_map o_def)

lemma isin_list_of_Nil: "isin_list_of [] = []"
  by (simp add: isin_list_of_def strip_Nil)

lemma isin_list_of_empty_iff:
  "isin_list_of t = [] \<longleftrightarrow> (\<forall>l \<in> set (split_nl t). strip l = [])"
  by (auto simp: isin_list_of_def filter_empty_conv)

text \<open>A stripped line neither starts nor ends with whitespace.\<close>

lemma strip_no_outer_space:
  "strip s \<noteq> [] \<Longrightarrow> \<not> isspace (hd (strip s)) \<and> \<not> isspace (last (strip s))"
proof -
  assume ne: "strip s \<noteq> []"
  have l: "\<not> isspace (last (strip s))"
    using ne unfolding strip_def rstrip_def
    by (metis hd_dropWhile last_rev rev_is_Nil_conv)
  have "lstrip s \<noteq> []"
    using ne by (auto simp: strip_def rstrip_def)
  then have h1: "\<not> isspace (hd (lstrip s))"
    unfolding lstrip_def by (metis hd_dropWhile)
  have "hd (rstrip t) = hd t" if "rstrip t \<noteq> []" for t
    using that unfolding rstrip_def
    by (metis Nil_is_rev_conv hd_rev last_appendR last_rev takeWhile_dropWhile_id)
  then have "hd (strip s) = hd (lstrip s)"
    using ne by (simp add: strip_def)
  with h1 l show ?thesis by simp
qed

text \<open>Every identifier handed to the queue is non-empty and trimmed.\<close>

lemma isin_list_of_trimmed:
  "x \<in> set (isin_list_of t) \<Longrightarrow> x \<noteq> [] \<and> \<not> isspace (hd x) \<and> \<not> isspace (last x)"
  using strip_no_outer_space by (auto simp: isin_list_of_def)

lemma scenario_isin_list:
  "isin_list_of (isin_input scenario_form) = [str ''US0000000001'', str ''US0000000002'']"
  by (simp add: scenario_form_def isin_list_of_def str_def strip_defs isspace_def)


text \<open>
  C2, as the specification states it, fails. A form that lacks only the destination and
  a form that lacks only the document kinds break different rules of the specification
  and get the same error from the code. A form with no identifier text and a start after
  the end breaks rules 3 and 4 only, so the specification reports the date range; the
  code reports the missing fields, although it has an error of its own for the date range.
\<close>

theorem build_job_errors_counterexample:
  "spec_first_violation (scenario_form\<lparr> s3_bucket := [] \<rparr>) = Some MissingDestination
   \<and> spec_first_violation (scenario_form\<lparr> doc_types := [] \<rparr>) = Some MissingDocumentKinds
   \<and> build_job (scenario_form\<lparr> s3_bucket := [] \<rparr>) = Inl FillRequiredFields
   \<and> build_job (scenario_form\<lparr> doc_types := [] \<rparr>) = Inl FillRequiredFields
   \<and> spec_first_violation
        (scenario_form\<lparr> isin_input := [], start_date := \<lparr> year = 2025, month = 1, day = 1 \<rparr> \<rparr>)
      = Some InvalidDateRange
   \<and> build_job
        (scenario_form\<lparr> isin_input := [], start_date := \<lparr> year = 2025, month = 1, day = 1 \<rparr> \<rparr>)
      = Inl FillRequiredFields
   \<and> build_job (scenario_form\<lparr> start_date := \<lparr> year = 2025, month = 1, day = 1 \<rparr> \<rparr>)
      = Inl StartBeforeEnd"
  by (simp add: spec_first_violation_def build_job_def scenario_form_def date_le_def
      date_gt_def str_def)

text \<open>
  C2, amended. The code has three checks, in this order, the first failure winning:
  identifier text, destination and document kinds all non-empty, else the one error
  "Please fill in all required fields"; start not after end, else "Start date must be
  before end date"; some line non-blank after trimming, else "Please enter at least one
  valid ISIN". A job is built exactly when none of the four rules of the specification is
  broken.
\<close>

theorem build_job_check_order:
  "(isin_input f = [] \<or> s3_bucket f = [] \<or> doc_types f = []
      \<longrightarrow> build_job f = Inl FillRequiredFields)
   \<and> (isin_input f \<noteq> [] \<and> s3_bucket f \<noteq> [] \<and> doc_types f \<noteq> []
        \<and> date_gt (start_date f) (end_date f)
      \<longrightarrow> build_job f = Inl StartBeforeEnd)
   \<and> (isin_input f \<noteq> [] \<and> s3_bucket f \<noteq> [] \<and> doc_types f \<noteq> []
        \<and> \<not> date_gt (start_date f) (end_date f)
        \<and> (\<forall>l \<in> set (split_nl (isin_input f)). strip l = [])
      \<longrightarrow> build_job f = Inl NoValidIsin)
   \<and> ((\<exists>j. build_job f = Inr j) \<longleftrightarrow> spec_first_violation f = None)"
proof -
  have accept: "(\<exists>j. build_job f = Inr j) \<longleftrightarrow> spec_first_violation f = None"
    using isin_list_of_Nil
    by (auto simp: build_job_def spec_first_violation_def date_le_iff isin_list_of_eq)
  show ?thesis
    using accept by (simp add: build_job_def isin_list_of_empty_iff)
qed

theorem build_job_check_order_witness:
  "build_job (scenario_form\<lparr> doc_types := [] \<rparr>) = Inl FillRequiredFields
   \<and> build_job (scenario_form\<lparr> start_date := \<lparr> year = 2025, month = 1, day = 1 \<rparr> \<rparr>)
       = Inl StartBeforeEnd
   \<and> build_job (scenario_form\<lparr> isin_input := [32, 10, 9] \<rparr>) = Inl NoValidIsin
   \<and> (\<exists>j. build_job scenario_form = Inr j)"
proof -
  have a: "spec_first_violation scenario_form = None"
    by (simp add: spec_first_violation_def scenario_form_def date_le_def str_def strip_defs
        isspace_def)
  show ?thesis
    using build_job_check_order [of "scenario_form\<lparr> doc_types := [] \<rparr>"]
      build_job_check_order
        [of "scenario_form\<lparr> start_date := \<lparr> year = 2025, month = 1, day = 1 \<rparr> \<rparr>"]
      build_job_check_order [of "scenario_form\<lparr> isin_input := [32, 10, 9] \<rparr>"]
      build_job_check_order [of scenario_form] a
    by (simp add: scenario_form_def date_gt_def str_def strip_defs isspace_def)
qed

section \<open>Properties of the float model\<close>


















lemma ulp_exponent_le_ilog2: "0 < x \<Longrightarrow> - 1074 \<le> ilog2 x \<Longrightarrow> ulp_exponent x \<le> ilog2 x"
  by (simp add: ulp_exponent_def)




lemma nearest_double_0: "nearest_double 0 = 0"
  by (simp add: nearest_double_def)









section \<open>Properties of polling\<close>

lemma task_id_ensure_containers: "task_id (ensure_containers st) = task_id st"
  by (simp add: ensure_containers_def)

lemma ensure_containers_idem: "ensure_containers (ensure_containers st) = ensure_containers st"
  by (simp add: ensure_containers_def split: option.splits)

lemma ensure_containers_present:
  "progress_container st \<noteq> None \<Longrightarrow> status_container st \<noteq> None \<Longrightarrow>
   results_container st \<noteq> None \<Longrightarrow> ensure_containers st = st"
  by (auto simp: ensure_containers_def)

lemma check_task_status_no_handle: "task_id st = None \<Longrightarrow> check_task_status k st = (st, [])"
  by (simp add: check_task_status_def)

lemma check_task_status_falsy:
  "task_id st = Some h \<Longrightarrow> huey_result k = Inr v \<Longrightarrow> \<not> truthy v \<Longrightarrow>
   check_task_status k st = (ensure_containers st, [])"
  by (simp add: check_task_status_def try_block_def)

lemma check_task_status_raise:
  "task_id st = Some h \<Longrightarrow> try_block k (ensure_containers st) = Inl e \<Longrightarrow>
   check_task_status k st
     = ((ensure_containers st)\<lparr> task_id := None \<rparr>, [Error (ErrorCheckingTaskStatus e)])"
  by (simp add: check_task_status_def)

lemma status_dict_nonempty: "dict_get d k VNone = VStr s \<Longrightarrow> d \<noteq> []"
  by (auto simp: dict_get_def)

lemma str_status_distinct:
  "str ''In Progress'' \<noteq> str ''Complete''" "str ''In Progress'' \<noteq> str ''Failed''"
  "str ''Complete'' \<noteq> str ''Failed''" "str ''Complete'' \<noteq> str ''In Progress''"
  "str ''Failed'' \<noteq> str ''In Progress''" "str ''Failed'' \<noteq> str ''Complete''"
  by (simp_all add: str_def)









text \<open>
  C7. When \<open>huey.result\<close> raises while a handle is held, whatever the exception, the
  poll catches it, shows the error "Error checking task status" with the exception, and
  removes \<open>task_id\<close> from the session state: nothing is retried and the handle is not
  kept.
\<close>

theorem store_read_exception_disposes:
  "task_id st = Some h \<Longrightarrow> huey_result k = Inl e \<Longrightarrow>
   check_task_status k st
     = ((ensure_containers st)\<lparr> task_id := None \<rparr>, [Error (ErrorCheckingTaskStatus e)])
   \<and> task_id (fst (check_task_status k st)) = None"
  by (simp add: check_task_status_def try_block_def)

theorem store_read_exception_disposes_witness:
  "check_task_status
     \<lparr> huey_result = Inl (OtherException (str ''connection lost'')),
       progress_accepts = documented_range \<rparr>
     (submitted_session (str ''t1''))
   = (\<lparr> processing_complete = Some False, processed_files = Some [], task_id = None,
        progress_container = Some Empty, status_container = Some Empty,
        results_container = Some Empty \<rparr>,
      [Error (ErrorCheckingTaskStatus (OtherException (str ''connection lost'')))])"
  using store_read_exception_disposes
    [of "submitted_session (str ''t1'')" "str ''t1''"
        "\<lparr> huey_result = Inl (OtherException (str ''connection lost'')),
           progress_accepts = documented_range \<rparr>"
        "OtherException (str ''connection lost'')"]
  by (simp add: submitted_session_def fresh_session_def ensure_containers_def)








lemma check_task_status_other_status:
  assumes "task_id st = Some h"
    and "huey_result k = Inr (VDict d)"
    and "dict_get d (str ''status'') VNone \<noteq> VStr (str ''In Progress'')"
    and "dict_get d (str ''status'') VNone \<noteq> VStr (str ''Complete'')"
    and "dict_get d (str ''status'') VNone \<noteq> VStr (str ''Failed'')"
  shows "check_task_status k st = (ensure_containers st, [])"
  using assms by (auto simp: check_task_status_def try_block_def render_result_def Let_def)

text \<open>
  C10, as stated, fails on the first poll after a dispatch: the snapshot has the status
  "Pending", and the session state does change, since the three containers are created.
\<close>

theorem other_status_counterexample:
  "check_task_status (reads snapshot_pending) (submitted_session (str ''t1''))
   = (\<lparr> processing_complete = Some False, processed_files = Some [],
        task_id = Some (str ''t1''),
        progress_container = Some Empty, status_container = Some Empty,
        results_container = Some Empty \<rparr>, [])
   \<and> submitted_session (str ''t1'')
   = \<lparr> processing_complete = Some False, processed_files = Some [],
       task_id = Some (str ''t1''),
       progress_container = None, status_container = None, results_container = None \<rparr>
   \<and> fst (check_task_status (reads snapshot_pending) (submitted_session (str ''t1'')))
       \<noteq> submitted_session (str ''t1'')"
proof -
  have "check_task_status (reads snapshot_pending) (submitted_session (str ''t1''))
      = (ensure_containers (submitted_session (str ''t1'')), [])"
    by (rule check_task_status_other_status [where h = "str ''t1''"
          and d = "[(str ''status'', VStr (str ''Pending''))]"])
      (simp_all add: submitted_session_def reads_def snapshot_pending_def dict_get_def str_def)
  then show ?thesis
    by (simp add: submitted_session_def fresh_session_def ensure_containers_def)
qed

text \<open>
  C10, amended. A poll that reads a snapshot whose status is none of "In Progress",
  "Complete" and "Failed" shows nothing and writes nothing into a container. It keeps the
  handle and every other field of the session state; the only change is that the three
  containers are created, empty, where they do not exist yet, so a second such poll
  changes nothing at all.
\<close>

theorem other_status_keeps_handle:
  assumes "task_id st = Some h"
    and "huey_result k = Inr (VDict d)"
    and "dict_get d (str ''status'') VNone \<noteq> VStr (str ''In Progress'')"
    and "dict_get d (str ''status'') VNone \<noteq> VStr (str ''Complete'')"
    and "dict_get d (str ''status'') VNone \<noteq> VStr (str ''Failed'')"
  shows "check_task_status k st = (ensure_containers st, [])
    \<and> task_id (ensure_containers st) = Some h
    \<and> processing_complete (ensure_containers st) = processing_complete st
    \<and> processed_files (ensure_containers st) = processed_files st
    \<and> progress_container (ensure_containers st)
        = (if progress_container st = None then Some Empty else progress_container st)
    \<and> status_container (ensure_containers st)
        = (if status_container st = None then Some Empty else status_container st)
    \<and> results_container (ensure_containers st)
        = (if results_container st = None then Some Empty else results_container st)
    \<and> check_task_status k (ensure_containers st) = (ensure_containers st, [])"
proof -
  have 1: "check_task_status k st = (ensure_containers st, [])"
    using assms by (rule check_task_status_other_status)
  have "task_id (ensure_containers st) = Some h"
    using assms(1) by (simp add: task_id_ensure_containers)
  from check_task_status_other_status [OF this assms(2-5)]
  have 2: "check_task_status k (ensure_containers st) = (ensure_containers st, [])"
    by (simp add: ensure_containers_idem)
  show ?thesis
    using 1 2 assms(1) by (auto simp: ensure_containers_def split: option.splits)
qed

theorem other_status_keeps_handle_witness:
  "check_task_status (reads snapshot_pending) (submitted_session (str ''t1''))
     = (ensure_containers (submitted_session (str ''t1'')), [])
   \<and> task_id (ensure_containers (submitted_session (str ''t1''))) = Some (str ''t1'')
   \<and> check_task_status (reads snapshot_pending) (ensure_containers (submitted_session (str ''t1'')))
     = (ensure_containers (submitted_session (str ''t1'')), [])"
proof -
  have a: "task_id (submitted_session (str ''t1'')) = Some (str ''t1'')"
    by (simp add: submitted_session_def)
  have b: "huey_result (reads snapshot_pending) = Inr (VDict [(str ''status'', VStr (str ''Pending''))])"
    by (simp add: reads_def snapshot_pending_def)
  have c: "dict_get [(str ''status'', VStr (str ''Pending''))] (str ''status'') VNone
             \<noteq> VStr (str ''In Progress'')"
    "dict_get [(str ''status'', VStr (str ''Pending''))] (str ''status'') VNone
             \<noteq> VStr (str ''Complete'')"
    "dict_get [(str ''status'', VStr (str ''Pending''))] (str ''status'') VNone
             \<noteq> VStr (str ''Failed'')"
    by (simp_all add: dict_get_def str_def)
  from other_status_keeps_handle [OF a b c] show ?thesis
    by simp
qed

lemma check_task_status_complete:
  assumes "task_id st = Some h"
    and "huey_result k = Inr (VDict d)"
    and "dict_get d (str ''status'') VNone = VStr (str ''Complete'')"
  shows "check_task_status k st =
     (if progress_accepts k (FloatNum 1) then
        ((ensure_containers st)
           \<lparr> progress_container := Some (ProgressBar (FloatNum 1)),
             status_container := Some (Text ProcessingComplete),
             results_container :=
               Some (Text (FinalResults (dict_get d (str ''total'') (VInt 0))
                                        (dict_get d (str ''success'') (VInt 0))
                                        (dict_get d (str ''failed'') (VInt 0)))),
             task_id := None \<rparr>, [])
      else ((ensure_containers st)\<lparr> task_id := None \<rparr>,
            [Error (ErrorCheckingTaskStatus StreamlitAPIException)]))"
proof -
  have "d \<noteq> []" using assms(3) by (rule status_dict_nonempty)
  then have "try_block k (ensure_containers st) = complete_branch k d (ensure_containers st)"
    using assms(2,3) by (simp add: try_block_def render_result_def str_status_distinct)
  then show ?thesis
    using assms(1) by (simp add: check_task_status_def complete_branch_def)
qed

lemma check_task_status_failed:
  assumes "task_id st = Some h"
    and "huey_result k = Inr (VDict d)"
    and "dict_get d (str ''status'') VNone = VStr (str ''Failed'')"
  shows "check_task_status k st =
     ((ensure_containers st)\<lparr> task_id := None \<rparr>,
      [Error (ProcessingFailed (dict_get d (str ''error'') (VStr (str ''Unknown error''))))])"
proof -
  have "d \<noteq> []" using assms(3) by (rule status_dict_nonempty)
  then have "try_block k (ensure_containers st) = failed_branch d (ensure_containers st)"
    using assms(2,3) by (simp add: try_block_def render_result_def str_status_distinct)
  then show ?thesis
    using assms(1) by (simp add: check_task_status_def failed_branch_def)
qed

text \<open>
  C3, as the specification states it, fails in its second half. After a Complete snapshot
  has been read the handle is gone, and a further poll returns the session state as it
  is and shows nothing, no error included: a silent no-op.
\<close>

theorem poll_after_disposal_counterexample:
  "check_task_status (reads (snapshot_complete 10 9 1)) (submitted_session (str ''t1''))
   = (\<lparr> processing_complete = Some False, processed_files = Some [], task_id = None,
        progress_container = Some (ProgressBar (FloatNum 1)),
        status_container = Some (Text ProcessingComplete),
        results_container = Some (Text (FinalResults (VInt 10) (VInt 9) (VInt 1))) \<rparr>, [])
   \<and> check_task_status (reads (snapshot_complete 10 9 1))
       \<lparr> processing_complete = Some False, processed_files = Some [], task_id = None,
         progress_container = Some (ProgressBar (FloatNum 1)),
         status_container = Some (Text ProcessingComplete),
         results_container = Some (Text (FinalResults (VInt 10) (VInt 9) (VInt 1))) \<rparr>
   = (\<lparr> processing_complete = Some False, processed_files = Some [], task_id = None,
        progress_container = Some (ProgressBar (FloatNum 1)),
        status_container = Some (Text ProcessingComplete),
        results_container = Some (Text (FinalResults (VInt 10) (VInt 9) (VInt 1))) \<rparr>, [])"
proof -
  have "check_task_status (reads (snapshot_complete 10 9 1)) (submitted_session (str ''t1''))
   = (\<lparr> processing_complete = Some False, processed_files = Some [], task_id = None,
        progress_container = Some (ProgressBar (FloatNum 1)),
        status_container = Some (Text ProcessingComplete),
        results_container = Some (Text (FinalResults (VInt 10) (VInt 9) (VInt 1))) \<rparr>, [])"
    using check_task_status_complete
      [of "submitted_session (str ''t1'')" "str ''t1''" "reads (snapshot_complete 10 9 1)"
          "[(str ''status'', VStr (str ''Complete'')), (str ''total'', VInt 10),
            (str ''success'', VInt 9), (str ''failed'', VInt 1)]"]
    by (simp add: submitted_session_def fresh_session_def reads_def snapshot_complete_def
        ensure_containers_def dict_get_def str_def)
  then show ?thesis
    by (simp add: check_task_status_no_handle)
qed

text \<open>
  C3, amended. A poll that reads a Complete or Failed snapshot removes \<open>task_id\<close> from
  the session state. Any poll after that, whatever the store would return, leaves the
  session state as it is and shows nothing.
\<close>

theorem terminal_snapshot_disposes_handle:
  assumes "task_id st = Some h"
    and "huey_result k = Inr (VDict d)"
    and "dict_get d (str ''status'') VNone = VStr (str ''Complete'')
         \<or> dict_get d (str ''status'') VNone = VStr (str ''Failed'')"
  shows "task_id (fst (check_task_status k st)) = None
    \<and> check_task_status k' (fst (check_task_status k st)) = (fst (check_task_status k st), [])"
proof -
  have "task_id (fst (check_task_status k st)) = None"
    using assms(3) check_task_status_complete [OF assms(1,2)]
      check_task_status_failed [OF assms(1,2)]
    by auto
  then show ?thesis
    by (simp add: check_task_status_no_handle)
qed

theorem terminal_snapshot_disposes_handle_witness:
  "task_id (fst (check_task_status (reads (snapshot_failed (str ''boom'')))
                   (submitted_session (str ''t1'')))) = None
   \<and> check_task_status (reads (snapshot_in_progress 5 10 4 1))
        (fst (check_task_status (reads (snapshot_failed (str ''boom'')))
                (submitted_session (str ''t1''))))
     = (fst (check_task_status (reads (snapshot_failed (str ''boom'')))
                (submitted_session (str ''t1''))), [])"
proof -
  have a: "task_id (submitted_session (str ''t1'')) = Some (str ''t1'')"
    by (simp add: submitted_session_def)
  have b: "huey_result (reads (snapshot_failed (str ''boom'')))
      = Inr (VDict [(str ''status'', VStr (str ''Failed'')), (str ''error'', VStr (str ''boom''))])"
    by (simp add: reads_def snapshot_failed_def)
  have c: "dict_get [(str ''status'', VStr (str ''Failed'')), (str ''error'', VStr (str ''boom''))]
             (str ''status'') VNone = VStr (str ''Complete'')
         \<or> dict_get [(str ''status'', VStr (str ''Failed'')), (str ''error'', VStr (str ''boom''))]
             (str ''status'') VNone = VStr (str ''Failed'')"
    by (simp add: dict_get_def)
  from terminal_snapshot_disposes_handle [OF a b c] show ?thesis
    by simp
qed

text \<open>
  C5, as the specification states it, fails. With no snapshot in the store, three polls in
  a row each leave the three containers empty and show nothing: there is no "waiting"
  indication.
\<close>

theorem absent_snapshot_counterexample:
  "poll_trace [reads VNone, reads VNone, reads VNone] (submitted_session (str ''t1''))
   = [(\<lparr> processing_complete = Some False, processed_files = Some [],
         task_id = Some (str ''t1''),
         progress_container = Some Empty, status_container = Some Empty,
         results_container = Some Empty \<rparr>, []),
      (\<lparr> processing_complete = Some False, processed_files = Some [],
         task_id = Some (str ''t1''),
         progress_container = Some Empty, status_container = Some Empty,
         results_container = Some Empty \<rparr>, []),
      (\<lparr> processing_complete = Some False, processed_files = Some [],
         task_id = Some (str ''t1''),
         progress_container = Some Empty, status_container = Some Empty,
         results_container = Some Empty \<rparr>, [])]"
proof -
  have "check_task_status (reads VNone) st = (ensure_containers st, [])"
    if "task_id st = Some (str ''t1'')" for st
    using that by (rule check_task_status_falsy [where v = VNone]) (simp_all add: reads_def)
  then show ?thesis
    by (simp add: submitted_session_def fresh_session_def ensure_containers_def)
qed

text \<open>
  C5, amended. While the store has no snapshot for the held handle, every poll keeps the
  handle and shows nothing (it only creates the empty containers where they are missing),
  however many polls go by: absence is never an error and never leads to Failed.
\<close>

theorem absent_snapshot_never_fails:
  assumes "task_id st = Some h"
    and "\<forall>k \<in> set ks. huey_result k = Inr VNone"
  shows "poll_trace ks st = replicate (length ks) (ensure_containers st, [])
    \<and> task_id (ensure_containers st) = Some h
    \<and> list_all (\<lambda>r. task_id (fst r) = Some h \<and> snd r = []) (poll_trace ks st)"
proof -
  have tr: "poll_trace ks st = replicate (length ks) (ensure_containers st, [])"
    using assms
  proof (induction ks arbitrary: st)
    case Nil
    then show ?case by simp
  next
    case (Cons k ks)
    have step: "check_task_status k st = (ensure_containers st, [])"
      using Cons.prems by (intro check_task_status_falsy [where v = VNone]) simp_all
    have "poll_trace ks (ensure_containers st)
        = replicate (length ks) (ensure_containers (ensure_containers st), [])"
      using Cons.prems by (intro Cons.IH) (simp_all add: task_id_ensure_containers)
    then show ?case
      by (simp add: step ensure_containers_idem)
  qed
  have h: "task_id (ensure_containers st) = Some h"
    using assms(1) by (simp add: task_id_ensure_containers)
  show ?thesis
    using tr h by (simp add: list_all_iff)
qed

theorem absent_snapshot_never_fails_witness:
  "poll_trace [reads VNone, reads VNone] (submitted_session (str ''t1''))
     = [(ensure_containers (submitted_session (str ''t1'')), []),
        (ensure_containers (submitted_session (str ''t1'')), [])]
   \<and> task_id (ensure_containers (submitted_session (str ''t1''))) = Some (str ''t1'')"
proof -
  have a: "task_id (submitted_session (str ''t1'')) = Some (str ''t1'')"
    by (simp add: submitted_session_def)
  have b: "\<forall>k \<in> set [reads VNone, reads VNone]. huey_result k = Inr VNone"
    by (simp add: reads_def)
  from absent_snapshot_never_fails [OF a b] show ?thesis
    by (simp del: poll_trace.simps)
qed

section \<open>Properties of the configuration check\<close>

lemma required_env_truthy:
  "list_all env_truthy (required_env cfg) \<longleftrightarrow>
     env_truthy (QUARTR_API_KEY cfg) \<and> env_truthy (AWS_ACCESS_KEY_ID cfg) \<and>
     env_truthy (AWS_SECRET_ACCESS_KEY cfg) \<and> env_truthy (AWS_DEFAULT_REGION cfg) \<and>
     env_truthy (REDIS_URL cfg)"
  by (simp add: required_env_def)

lemma check_task_status_events:
  "Error MissingEnvironment \<notin> set (snd (check_task_status k st))"
  by (auto simp: check_task_status_def try_block_def render_result_def in_progress_branch_def
      complete_branch_def failed_branch_def Let_def
      split: option.splits sum.splits pyval.splits if_splits)

lemma form_section_events:
  "form_section cfg r st = (st', out, c) \<Longrightarrow> Error MissingEnvironment \<notin> set out"
  by (auto simp: form_section_def split: option.splits sum.splits if_splits)

lemma test_queue_connection_message:
  "snd (test_queue_connection p) \<noteq> MissingEnvironment"
proof (cases "ping_raises p")
  case None
  show ?thesis
  proof (cases "task_get p")
    case (Inl e)
    with None show ?thesis
      by (cases e) (simp_all add: test_queue_connection_def)
  next
    case (Inr v)
    with None show ?thesis
      by (simp add: test_queue_connection_def)
  qed
next
  case (Some e)
  then show ?thesis
    by (simp add: test_queue_connection_def)
qed

lemma button_section_events_if:
  "test_queue_connection (probe_run r) = (success, msg) \<Longrightarrow> msg \<noteq> MissingEnvironment \<Longrightarrow>
   Error MissingEnvironment \<notin> set (button_section r)"
  unfolding button_section_def by (cases "test_button r") simp_all

lemma button_section_events:
  "Error MissingEnvironment \<notin> set (button_section r)"
proof (cases "test_queue_connection (probe_run r)")
  case (Pair success msg)
  have "msg \<noteq> MissingEnvironment"
    using test_queue_connection_message [of "probe_run r"] by (simp add: Pair)
  with Pair show ?thesis
    by (rule button_section_events_if)
qed

lemma default_bucket_unset:
  "default_bucket (cfg\<lparr> DEFAULT_S3_BUCKET := None \<rparr>) = []"
  "default_bucket (cfg\<lparr> DEFAULT_S3_BUCKET := Some [] \<rparr>) = []"
  by (simp_all add: default_bucket_def)

lemma form_section_submit:
  "task_id st = None \<Longrightarrow> submitted r = Some f \<Longrightarrow> build_job f = Inr j \<Longrightarrow>
   enqueue r = Inr h \<Longrightarrow>
   form_section cfg r st
     = (st\<lparr> task_id := Some h \<rparr>, [Form (default_bucket cfg), Dispatch j, Rerun], False)"
  by (simp add: form_section_def)

text \<open>
  C4, as the specification states it, fails for the default destination. With
  \<open>DEFAULT_S3_BUCKET\<close> unset and the other variables set, a run shows the form with an
  empty destination field and, when the operator submits the form of the scenario,
  dispatches the job and stores its handle: no configuration error is shown.
\<close>

theorem default_bucket_counterexample:
  "main (working_config\<lparr> DEFAULT_S3_BUCKET := None \<rparr>)
        (submit_run scenario_form (str ''t1'')) fresh_session
   = (fresh_session\<lparr> task_id := Some (str ''t1'') \<rparr>,
      [Title, Form [],
       Dispatch \<lparr> job_isin_list = [str ''US0000000001'', str ''US0000000002''],
                  job_start = \<lparr> year = 2024, month = 1, day = 1 \<rparr>,
                  job_end = \<lparr> year = 2024, month = 12, day = 31 \<rparr>,
                  job_doc_types = [slides],
                  job_bucket = str ''bucket-x'' \<rparr>,
       Rerun])"
proof -
  have b: "build_job scenario_form
     = Inr \<lparr> job_isin_list = [str ''US0000000001'', str ''US0000000002''],
             job_start = \<lparr> year = 2024, month = 1, day = 1 \<rparr>,
             job_end = \<lparr> year = 2024, month = 12, day = 31 \<rparr>,
             job_doc_types = [slides],
             job_bucket = str ''bucket-x'' \<rparr>"
    unfolding build_job_def scenario_isin_list
    by (simp add: scenario_form_def date_gt_def str_def)
  have c: "check_task_status k fresh_session = (fresh_session, [])" for k
    by (simp add: check_task_status_no_handle fresh_session_def)
  have e: "list_all env_truthy (required_env (working_config\<lparr> DEFAULT_S3_BUCKET := None \<rparr>))"
    by (simp add: required_env_def working_config_def str_def)
  have f: "form_section (working_config\<lparr> DEFAULT_S3_BUCKET := None \<rparr>)
             (submit_run scenario_form (str ''t1'')) fresh_session
     = (fresh_session\<lparr> task_id := Some (str ''t1'') \<rparr>,
        [Form [],
         Dispatch \<lparr> job_isin_list = [str ''US0000000001'', str ''US0000000002''],
                    job_start = \<lparr> year = 2024, month = 1, day = 1 \<rparr>,
                    job_end = \<lparr> year = 2024, month = 12, day = 31 \<rparr>,
                    job_doc_types = [slides],
                    job_bucket = str ''bucket-x'' \<rparr>,
         Rerun], False)"
    using form_section_submit [OF _ _ b, of fresh_session "submit_run scenario_form (str ''t1'')"
        "str ''t1''" "working_config\<lparr> DEFAULT_S3_BUCKET := None \<rparr>"]
    by (simp add: default_bucket_unset submit_run_def fresh_session_def)
  have h: "\<not> health_query (submit_run scenario_form (str ''t1''))"
    by (simp add: submit_run_def)
  show ?thesis
    using e h by (simp add: main_def c f)
qed

lemma main_no_handle:
  assumes "\<not> health_query r" "list_all env_truthy (required_env cfg)" "task_id st = None"
  shows "main cfg r st
     = (case form_section cfg r st of
          (st2, out2, continue) \<Rightarrow>
            (st2, Title # out2 @ (if continue then button_section r else [])))"
  using assms by (simp add: main_def check_task_status_no_handle)

text \<open>
  C4, amended. A run on the health-check route (query parameter \<open>health=check\<close>) writes
  "OK" and stops before anything is checked. Every other run checks five variables
  before it polls or shows the form: \<open>QUARTR_API_KEY\<close>, \<open>AWS_ACCESS_KEY_ID\<close>,
  \<open>AWS_SECRET_ACCESS_KEY\<close>, \<open>AWS_DEFAULT_REGION\<close> and \<open>REDIS_URL\<close>. When one of them
  is unset or empty, the run shows the configuration error and ends with the session
  state as it was, so no job is submitted; when all five are set, that error is not
  shown. The default destination is not checked: with the five set and no job held, the
  run shows the form, whose destination field starts with the default destination, empty
  when \<open>DEFAULT_S3_BUCKET\<close> is unset, and a valid form that is submitted is dispatched
  and its handle stored.
\<close>

theorem missing_required_env_stops_main:
  "(health_query r \<longrightarrow> main cfg r st = (st, [Write (str ''OK'')]))
   \<and> (\<not> health_query r \<and>
      (\<not> env_truthy (QUARTR_API_KEY cfg) \<or> \<not> env_truthy (AWS_ACCESS_KEY_ID cfg) \<or>
       \<not> env_truthy (AWS_SECRET_ACCESS_KEY cfg) \<or> \<not> env_truthy (AWS_DEFAULT_REGION cfg) \<or>
       \<not> env_truthy (REDIS_URL cfg))
     \<longrightarrow> main cfg r st = (st, [Title, Error MissingEnvironment]))
   \<and> (\<not> health_query r \<and>
       env_truthy (QUARTR_API_KEY cfg) \<and> env_truthy (AWS_ACCESS_KEY_ID cfg) \<and>
       env_truthy (AWS_SECRET_ACCESS_KEY cfg) \<and> env_truthy (AWS_DEFAULT_REGION cfg) \<and>
       env_truthy (REDIS_URL cfg)
     \<longrightarrow> Error MissingEnvironment \<notin> set (snd (main cfg r st)))
   \<and> (\<not> health_query r \<and>
       env_truthy (QUARTR_API_KEY cfg) \<and> env_truthy (AWS_ACCESS_KEY_ID cfg) \<and>
       env_truthy (AWS_SECRET_ACCESS_KEY cfg) \<and> env_truthy (AWS_DEFAULT_REGION cfg) \<and>
       env_truthy (REDIS_URL cfg) \<and> task_id st = None \<and> submitted r = None
     \<longrightarrow> main cfg r st = (st, Title # Form (default_bucket cfg) # button_section r))
   \<and> (\<not> health_query r \<and>
       env_truthy (QUARTR_API_KEY cfg) \<and> env_truthy (AWS_ACCESS_KEY_ID cfg) \<and>
       env_truthy (AWS_SECRET_ACCESS_KEY cfg) \<and> env_truthy (AWS_DEFAULT_REGION cfg) \<and>
       env_truthy (REDIS_URL cfg) \<and> task_id st = None \<and> submitted r = Some f \<and>
       build_job f = Inr j \<and> enqueue r = Inr h
     \<longrightarrow> main cfg r st
           = (st\<lparr> task_id := Some h \<rparr>, [Title, Form (default_bucket cfg), Dispatch j, Rerun]))
   \<and> (DEFAULT_S3_BUCKET cfg = None \<longrightarrow> default_bucket cfg = [])
   \<and> main (cfg\<lparr> DEFAULT_S3_BUCKET := None \<rparr>) r st
       = main (cfg\<lparr> DEFAULT_S3_BUCKET := Some [] \<rparr>) r st"
proof -
  have 0: "main cfg r st = (st, [Write (str ''OK'')])" if "health_query r"
    using that by (simp add: main_def)
  have 1: "main cfg r st = (st, [Title, Error MissingEnvironment])"
    if "\<not> health_query r" "\<not> list_all env_truthy (required_env cfg)"
    using that by (simp add: main_def)
  have 2: "Error MissingEnvironment \<notin> set (snd (main cfg r st))"
    if "\<not> health_query r" "list_all env_truthy (required_env cfg)"
  proof -
    obtain st1 out1 where a: "check_task_status (poll r) st = (st1, out1)"
      by (cases "check_task_status (poll r) st")
    obtain st2 out2 c where b: "form_section cfg r st1 = (st2, out2, c)"
      by (cases "form_section cfg r st1")
    have "Error MissingEnvironment \<notin> set out1"
      using check_task_status_events [of "poll r" st] a by simp
    moreover have "Error MissingEnvironment \<notin> set out2"
      using b by (rule form_section_events)
    ultimately show ?thesis
      using that a b button_section_events [of r] by (simp add: main_def)
  qed
  have 3: "main (cfg\<lparr> DEFAULT_S3_BUCKET := None \<rparr>) r st
       = main (cfg\<lparr> DEFAULT_S3_BUCKET := Some [] \<rparr>) r st"
    unfolding main_def form_section_def default_bucket_unset required_env_def
    by simp
  have 4: "main cfg r st = (st, Title # Form (default_bucket cfg) # button_section r)"
    if "\<not> health_query r" "list_all env_truthy (required_env cfg)" "task_id st = None"
      "submitted r = None"
    using that by (simp add: main_no_handle form_section_def)
  have 5: "main cfg r st
      = (st\<lparr> task_id := Some h \<rparr>, [Title, Form (default_bucket cfg), Dispatch j, Rerun])"
    if "\<not> health_query r" "list_all env_truthy (required_env cfg)" "task_id st = None"
      "submitted r = Some f" "build_job f = Inr j" "enqueue r = Inr h"
    using that form_section_submit [of st r f j h cfg] by (simp add: main_no_handle)
  have 6: "default_bucket cfg = []" if "DEFAULT_S3_BUCKET cfg = None"
    using that by (simp add: default_bucket_def)
  show ?thesis
    using 0 1 2 3 4 5 6 by (auto simp: required_env_truthy)
qed

theorem missing_required_env_stops_main_witness:
  "main working_config ((submit_run scenario_form (str ''t1''))\<lparr> health_query := True \<rparr>)
        fresh_session
     = (fresh_session, [Write (str ''OK'')])
   \<and> main (working_config\<lparr> REDIS_URL := None \<rparr>)
        (submit_run scenario_form (str ''t1'')) fresh_session
     = (fresh_session, [Title, Error MissingEnvironment])
   \<and> Error MissingEnvironment
        \<notin> set (snd (main working_config (submit_run scenario_form (str ''t1'')) fresh_session))
   \<and> main (working_config\<lparr> DEFAULT_S3_BUCKET := None \<rparr>)
        ((submit_run scenario_form (str ''t1''))\<lparr> submitted := None \<rparr>) fresh_session
     = (fresh_session, [Title, Form []])
   \<and> main (working_config\<lparr> DEFAULT_S3_BUCKET := None \<rparr>)
        (submit_run scenario_form (str ''t1'')) fresh_session
     = (fresh_session\<lparr> task_id := Some (str ''t1'') \<rparr>,
        [Title, Form [],
         Dispatch \<lparr> job_isin_list = [str ''US0000000001'', str ''US0000000002''],
                    job_start = \<lparr> year = 2024, month = 1, day = 1 \<rparr>,
                    job_end = \<lparr> year = 2024, month = 12, day = 31 \<rparr>,
                    job_doc_types = [slides],
                    job_bucket = str ''bucket-x'' \<rparr>,
         Rerun])"
proof -
  have b: "build_job scenario_form
     = Inr \<lparr> job_isin_list = [str ''US0000000001'', str ''US0000000002''],
             job_start = \<lparr> year = 2024, month = 1, day = 1 \<rparr>,
             job_end = \<lparr> year = 2024, month = 12, day = 31 \<rparr>,
             job_doc_types = [slides],
             job_bucket = str ''bucket-x'' \<rparr>"
    unfolding build_job_def scenario_isin_list
    by (simp add: scenario_form_def date_gt_def str_def)
  have n: "button_section ((submit_run scenario_form (str ''t1''))\<lparr> submitted := None \<rparr>) = []"
    by (simp add: button_section_def submit_run_def)
  show ?thesis
    using missing_required_env_stops_main
      [of "(submit_run scenario_form (str ''t1''))\<lparr> health_query := True \<rparr>"
          working_config fresh_session]
      missing_required_env_stops_main
      [of "submit_run scenario_form (str ''t1'')" "working_config\<lparr> REDIS_URL := None \<rparr>"
          fresh_session]
      missing_required_env_stops_main
      [of "submit_run scenario_form (str ''t1'')" working_config fresh_session]
      missing_required_env_stops_main
      [of "(submit_run scenario_form (str ''t1''))\<lparr> submitted := None \<rparr>"
          "working_config\<lparr> DEFAULT_S3_BUCKET := None \<rparr>" fresh_session]
      missing_required_env_stops_main
      [of "submit_run scenario_form (str ''t1'')"
          "working_config\<lparr> DEFAULT_S3_BUCKET := None \<rparr>" fresh_session scenario_form
          "\<lparr> job_isin_list = [str ''US0000000001'', str ''US0000000002''],
             job_start = \<lparr> year = 2024, month = 1, day = 1 \<rparr>,
             job_end = \<lparr> year = 2024, month = 12, day = 31 \<rparr>,
             job_doc_types = [slides],
             job_bucket = str ''bucket-x'' \<rparr>" "str ''t1''"]
      b n
    by (simp add: working_config_def submit_run_def str_def fresh_session_def default_bucket_def)
qed

section \<open>Properties of the queue probe\<close>

text \<open>
  The branches of \<open>test_queue_connection\<close>, by what the call of \<open>task.get\<close> returns or
  raises.
\<close>

lemma test_queue_connection_cases:
  "(ping_raises p = None \<and> task_get p = Inr (VStr (str ''pong''))
      \<longrightarrow> test_queue_connection p = (True, QueueSuccessful))
   \<and> (ping_raises p = None \<and> task_get p = Inr v \<and> v \<noteq> VStr (str ''pong'')
      \<longrightarrow> test_queue_connection p = (False, UnexpectedResponse v))
   \<and> (ping_raises p = None \<and> task_get p = Inl (TaskException m)
      \<longrightarrow> test_queue_connection p = (False, TaskExecutionFailed (TaskException m)))
   \<and> (ping_raises p = None \<and> task_get p = Inl TimeoutError
      \<longrightarrow> test_queue_connection p = (False, QueueTimedOut))
   \<and> (ping_raises p = None \<and> task_get p = Inl e \<and> e \<noteq> TimeoutError
        \<and> e \<notin> range TaskException
      \<longrightarrow> test_queue_connection p = (False, QueueConnectionFailed e))
   \<and> (ping_raises p = Some e' \<longrightarrow> test_queue_connection p = (False, QueueConnectionFailed e'))"
proof -
  have other: "test_queue_connection p = (False, QueueConnectionFailed e)"
    if "ping_raises p = None" "task_get p = Inl e" "e \<noteq> TimeoutError" "e \<notin> range TaskException"
    using that by (cases e) (auto simp: test_queue_connection_def)
  show ?thesis
    using other by (auto simp: test_queue_connection_def)
qed

text \<open>
  C6. The code is at fault where no response arrives within the timeout. The wait then
  raises the queue library's own exception, which the branch \<open>except TimeoutError\<close>
  does not catch; the outer handler takes it, and the probe returns "Queue connection
  failed: timed out waiting for result", not the timed-out result, which is what the
  code returns only for the builtin \<open>TimeoutError\<close>. The other three outcomes of the
  wait are classified as the claim says: "pong" is the success, "pang" the unexpected
  response with its value, a task that raised the execution failure with its reason.
\<close>

theorem probe_timeout_not_timed_out:
  "huey_get NoResponse = Inl (HueyException (str ''timed out waiting for result''))
   \<and> test_queue_connection \<lparr> ping_raises = None, task_get = huey_get NoResponse \<rparr>
     = (False, QueueConnectionFailed (HueyException (str ''timed out waiting for result'')))
   \<and> spec_probe_result
       (test_queue_connection \<lparr> ping_raises = None, task_get = huey_get NoResponse \<rparr>)
     = None
   \<and> test_queue_connection \<lparr> ping_raises = None, task_get = Inl TimeoutError \<rparr>
     = (False, QueueTimedOut)
   \<and> spec_probe_result
       (test_queue_connection
          \<lparr> ping_raises = None, task_get = huey_get (Responds (VStr (str ''pong''))) \<rparr>)
     = Some Ok
   \<and> spec_probe_result
       (test_queue_connection
          \<lparr> ping_raises = None, task_get = huey_get (Responds (VStr (str ''pang''))) \<rparr>)
     = Some (UnexpectedResponseOf (VStr (str ''pang'')))
   \<and> spec_probe_result
       (test_queue_connection
          \<lparr> ping_raises = None, task_get = huey_get (TaskRaised (str ''boom'')) \<rparr>)
     = Some (ExecutionFailed (TaskException (str ''boom'')))"
  by (simp add: test_queue_connection_def str_def)

end
